theory Spec2Isabelle
  imports
    Main
    "HOL-Library.Mapping"
    "HOL-Library.AList_Mapping"
    "HOL-Library.Char_ord"
    "HOL-Library.List_Lexorder"
begin

section \<open>The nexmo client: errors, outcomes and the HTTP boundary\<close>

text \<open>
  The package is a thin client: it validates its arguments, builds a request, hands it to
  Go's \<^verbatim>\<open>net/http\<close> and interprets the answer. A Go \<^verbatim>\<open>string\<close> is a sequence of bytes and
  \<^verbatim>\<open>len\<close> counts bytes; the model uses \<^typ>\<open>string\<close> (a list of 8-bit characters) and
  \<^const>\<open>length\<close>. A \<^verbatim>\<open>[]byte\<close> is modelled by the same type.
\<close>

type_synonym bytes = string

text \<open>
  Go's \<^verbatim>\<open>error\<close> interface, as the sum of the dynamic types that reach this package:
  a value made here by \<^verbatim>\<open>errors.New\<close>, the \<^verbatim>\<open>*url.Error\<close> that \<^verbatim>\<open>http.Client.Do\<close>
  returns, and an error of \<^verbatim>\<open>json.Unmarshal\<close>.
\<close>

datatype url_Error = UrlError string

datatype json_Error = SyntaxError | UnmarshalError

datatype error = New string | OfUrl url_Error | OfJson json_Error

text \<open>A call either returns its results or panics (a nil pointer dereference).\<close>

datatype 'a outcome = Return 'a | Panic

record Request =
  Method :: string
  req_URL :: string
  Header :: "(string \<times> string) list"
  req_Body :: "string option"

record Response =
  StatusCode :: int
  resp_Body :: bytes

text \<open>
  Modelled from the spec: the client configuration holder \<^verbatim>\<open>Client\<close> is declared in a
  file that is not among the sources; the functions below read its fields \<^verbatim>\<open>apiKey\<close>,
  \<^verbatim>\<open>apiSecret\<close>, \<^verbatim>\<open>useOauth\<close> and \<^verbatim>\<open>VerboseLogging\<close>. The package constant \<^verbatim>\<open>apiRoot\<close>
  is declared there too; every function that uses it takes it as its first argument.
\<close>

record Client =
  apiKey :: string
  apiSecret :: string
  useOauth :: bool
  VerboseLogging :: bool

subsection \<open>URL escaping and form values (\<^verbatim>\<open>net/url\<close>)\<close>

definition upperhex :: string where
  "upperhex = ''0123456789ABCDEF''"

text \<open>\<^verbatim>\<open>shouldEscape(c, encodeQueryComponent)\<close>: only letters, digits and \<^verbatim>\<open>-_.~\<close> stay.\<close>

definition shouldEscape :: "char \<Rightarrow> bool" where
  "shouldEscape c =
     (let n = (of_char c :: nat) in
      \<not> ((97 \<le> n \<and> n \<le> 122) \<or> (65 \<le> n \<and> n \<le> 90) \<or> (48 \<le> n \<and> n \<le> 57)
         \<or> c \<in> set ''-_.~''))"

fun QueryEscape :: "string \<Rightarrow> string" where
  "QueryEscape [] = []"
| "QueryEscape (c # s) =
     (if shouldEscape c then
        (if c = CHR '' '' then CHR ''+'' # QueryEscape s
         else CHR ''%'' # upperhex ! ((of_char c :: nat) div 16)
                # upperhex ! ((of_char c :: nat) mod 16) # QueryEscape s)
      else c # QueryEscape s)"

text \<open>\<^verbatim>\<open>url.Values\<close> is \<^verbatim>\<open>map[string][]string\<close>; \<^verbatim>\<open>Add\<close> appends to the key's list.\<close>

type_synonym Values = "(string, string list) mapping"

definition Add :: "string \<Rightarrow> string \<Rightarrow> Values \<Rightarrow> Values" where
  "Add key v vals = Mapping.update key (Mapping.lookup_default [] vals key @ [v]) vals"

fun join_amp :: "string list \<Rightarrow> string" where
  "join_amp [] = []"
| "join_amp [p] = p"
| "join_amp (p # q # ps) = p @ ''&'' @ join_amp (q # ps)"

text \<open>\<^verbatim>\<open>Values.Encode\<close>: the pairs \<^verbatim>\<open>key=value\<close>, escaped, sorted by key, joined by \<^verbatim>\<open>&\<close>.\<close>

definition Encode :: "Values \<Rightarrow> string" where
  "Encode v =
     join_amp (concat (map
       (\<lambda>k. map (\<lambda>x. QueryEscape k @ ''='' @ QueryEscape x) (Mapping.lookup_default [] v k))
       (Mapping.ordered_keys v)))"

subsection \<open>\<^verbatim>\<open>strconv.Itoa\<close>\<close>

fun digits :: "nat \<Rightarrow> string" where
  "digits n =
     (if n < 10 then [char_of (48 + n)]
      else digits (n div 10) @ [char_of (48 + n mod 10)])"

declare digits.simps [simp del]

definition Itoa :: "int \<Rightarrow> string" where
  "Itoa i = (if i < 0 then CHR ''-'' # digits (nat (- i)) else digits (nat i))"

section \<open>sms.go\<close>

text \<open>SMS message types.\<close>

definition Text_type :: string where "Text_type = ''text''"
definition Binary :: string where "Binary = ''binary''"
definition WAPPush :: string where "WAPPush = ''wappush''"
definition Unicode :: string where "Unicode = ''unicode''"
definition VCal_type :: string where "VCal_type = ''vcal''"
definition VCard_type :: string where "VCard_type = ''vcard''"

text \<open>\<^verbatim>\<open>type MessageClass int\<close> with the constants Flash, Standard, SIMData, Forward.\<close>

type_synonym MessageClass = int

definition Flash :: MessageClass where "Flash = 0"
definition Standard :: MessageClass where "Standard = 1"
definition SIMData :: MessageClass where "SIMData = 2"
definition Forward :: MessageClass where "Forward = 3"

record SMSMessage =
  msg_apiKey :: string
  msg_apiSecret :: string
  From :: string
  To :: string
  Type :: string
  Text :: string
  StatusReportRequired :: int
  ClientReference :: string
  NetworkCode :: string
  VCard :: string
  VCal :: string
  TTL :: int
  Class :: MessageClass
  Body :: bytes
  UDH :: bytes
  Title :: string
  URL :: string
  Validity :: int

definition ToValues :: "SMSMessage \<Rightarrow> Values" where
  "ToValues msg =
     (let vals = Mapping.empty;
          vals = Add ''from'' (From msg) vals;
          vals = Add ''to'' (To msg) vals;
          vals = Add ''type'' (Type msg) vals;
          vals = (if Text msg \<noteq> [] then Add ''text'' (Text msg) vals else vals);
          vals = (if StatusReportRequired msg \<noteq> 0
                  then Add ''status-report-req'' (Itoa (StatusReportRequired msg)) vals
                  else vals);
          vals = (if ClientReference msg \<noteq> []
                  then Add ''client-ref'' (ClientReference msg) vals else vals);
          vals = (if NetworkCode msg \<noteq> []
                  then Add ''network-code'' (NetworkCode msg) vals else vals);
          vals = (if VCard msg \<noteq> [] then Add ''vcard'' (VCard msg) vals else vals);
          vals = (if VCal msg \<noteq> [] then Add ''vcal'' (VCal msg) vals else vals);
          vals = (if TTL msg \<noteq> 0 then Add ''ttl'' (Itoa (TTL msg)) vals else vals);
          vals = (if length (Body msg) > 0 then Add ''body'' (Body msg) vals else vals);
          vals = (if length (UDH msg) > 0 then Add ''udh'' (UDH msg) vals else vals)
      in vals)"

subsection \<open>The message response and its JSON decoding\<close>

type_synonym ResponseCode = int

record MessageReport =
  Status :: ResponseCode
  MessageID :: string
  report_To :: string
  report_ClientReference :: string
  RemainingBalance :: string
  MessagePrice :: string
  Network :: string
  ErrorText :: string

record MessageResponse =
  MessageCount :: int
  Messages :: "MessageReport list"

text \<open>
  \<^verbatim>\<open>json.Unmarshal\<close> belongs to Go's standard library. The model works on the parsed JSON
  value and follows the library's rules for the two structs as their field tags select
  them:
  \<^item> an object is read entry by entry, in the order of the text; an entry whose key matches
    no field is skipped; a key matches a field's JSON name exactly or, failing that, up to
    the case of the letters \<^verbatim>\<open>a-z\<close> (the library also folds the Kelvin sign and the long s
    onto \<^verbatim>\<open>k\<close> and \<^verbatim>\<open>s\<close>; keys that hold them are outside the model);
  \<^item> a field tagged \<^verbatim>\<open>,string\<close> takes a JSON string holding an integer literal (an optional
    minus sign and decimal digits, within 64 bits); a bare number, a boolean, an array or an
    object is an error;
  \<^item> a string field takes a JSON string; \<^verbatim>\<open>null\<close> leaves any field as it is;
  \<^item> a slice field takes an array, element by element, each element starting from the zero
    value (the library's reuse of slice elements when a key is repeated is not modelled).
  Whenever the library reports an error, \<^verbatim>\<open>Send\<close> discards the decoded value, so the
  model returns the error alone.
\<close>

datatype json =
    JNull
  | JBool bool
  | JNumber string
  | JString string
  | JArray "json list"
  | JObject "(string \<times> json) list"

definition foldName :: "string \<Rightarrow> string" where
  "foldName s =
     map (\<lambda>c. if 97 \<le> (of_char c :: nat) \<and> (of_char c :: nat) \<le> 122
              then char_of ((of_char c :: nat) - 32) else c) s"

definition find_field :: "string list \<Rightarrow> string \<Rightarrow> string option" where
  "find_field names key =
     (if key \<in> set names then Some key
      else List.find (\<lambda>n. foldName n = foldName key) names)"

definition is_digit :: "char \<Rightarrow> bool" where
  "is_digit c = (48 \<le> (of_char c :: nat) \<and> (of_char c :: nat) \<le> 57)"

fun digits_value :: "int \<Rightarrow> string \<Rightarrow> int" where
  "digits_value acc [] = acc"
| "digits_value acc (c # s) = digits_value (10 * acc + ((of_char c :: int) - 48)) s"

text \<open>
  The integer literal of a \<^verbatim>\<open>,string\<close> field: the decoder lets through a text that starts
  with \<^verbatim>\<open>-\<close> or a digit and hands it to \<^verbatim>\<open>strconv.ParseInt(s, 10, 64)\<close>.
\<close>

definition ParseInt64 :: "string \<Rightarrow> int option" where
  "ParseInt64 s =
     (let neg = (s \<noteq> [] \<and> hd s = CHR ''-'');
          ds = (if neg then tl s else s)
      in if ds = [] \<or> \<not> list_all is_digit ds then None
         else let v = (if neg then - digits_value 0 ds else digits_value 0 ds)
              in if - (2 ^ 63) \<le> v \<and> v < 2 ^ 63 then Some v else None)"

text \<open>Storing a JSON value in a field: \<open>Inr None\<close> leaves the field as it is.\<close>

fun store_quoted_int :: "json \<Rightarrow> json_Error + int option" where
  "store_quoted_int JNull = Inr None"
| "store_quoted_int (JString s) =
     (if s = ''null'' then Inr None
      else case ParseInt64 s of None \<Rightarrow> Inl UnmarshalError | Some n \<Rightarrow> Inr (Some n))"
| "store_quoted_int _ = Inl UnmarshalError"

fun store_string :: "json \<Rightarrow> json_Error + string option" where
  "store_string JNull = Inr None"
| "store_string (JString s) = Inr (Some s)"
| "store_string _ = Inl UnmarshalError"

definition put_string ::
  "json \<Rightarrow> (string \<Rightarrow> 'a) \<Rightarrow> 'a \<Rightarrow> json_Error + 'a" where
  "put_string v upd r =
     (case store_string v of
        Inl e \<Rightarrow> Inl e
      | Inr None \<Rightarrow> Inr r
      | Inr (Some s) \<Rightarrow> Inr (upd s))"

definition put_quoted_int ::
  "json \<Rightarrow> (int \<Rightarrow> 'a) \<Rightarrow> 'a \<Rightarrow> json_Error + 'a" where
  "put_quoted_int v upd r =
     (case store_quoted_int v of
        Inl e \<Rightarrow> Inl e
      | Inr None \<Rightarrow> Inr r
      | Inr (Some n) \<Rightarrow> Inr (upd n))"

fun store_fields ::
  "(string \<times> json \<Rightarrow> 'a \<Rightarrow> json_Error + 'a) \<Rightarrow> (string \<times> json) list \<Rightarrow> 'a \<Rightarrow> json_Error + 'a"
where
  "store_fields f [] r = Inr r"
| "store_fields f (kv # kvs) r =
     (case f kv r of Inl e \<Rightarrow> Inl e | Inr r' \<Rightarrow> store_fields f kvs r')"

definition zero_MessageReport :: MessageReport where
  "zero_MessageReport =
     \<lparr>Status = 0, MessageID = [], report_To = [], report_ClientReference = [],
      RemainingBalance = [], MessagePrice = [], Network = [], ErrorText = []\<rparr>"

text \<open>The JSON names of the fields of \<^verbatim>\<open>MessageReport\<close>, from its tags.\<close>

definition MessageReport_names :: "string list" where
  "MessageReport_names =
     [''status'', ''message-id'', ''to'', ''client-ref'', ''remaining-balance'',
      ''message-price'', ''network'', ''error-text'']"

fun store_MessageReport :: "string \<times> json \<Rightarrow> MessageReport \<Rightarrow> json_Error + MessageReport" where
  "store_MessageReport (key, v) r =
     (case find_field MessageReport_names key of
        None \<Rightarrow> Inr r
      | Some f \<Rightarrow>
          if f = ''status'' then put_quoted_int v (\<lambda>n. r\<lparr>Status := n\<rparr>) r
          else if f = ''message-id'' then put_string v (\<lambda>s. r\<lparr>MessageID := s\<rparr>) r
          else if f = ''to'' then put_string v (\<lambda>s. r\<lparr>report_To := s\<rparr>) r
          else if f = ''client-ref'' then put_string v (\<lambda>s. r\<lparr>report_ClientReference := s\<rparr>) r
          else if f = ''remaining-balance'' then put_string v (\<lambda>s. r\<lparr>RemainingBalance := s\<rparr>) r
          else if f = ''message-price'' then put_string v (\<lambda>s. r\<lparr>MessagePrice := s\<rparr>) r
          else if f = ''network'' then put_string v (\<lambda>s. r\<lparr>Network := s\<rparr>) r
          else put_string v (\<lambda>s. r\<lparr>ErrorText := s\<rparr>) r)"

fun decode_MessageReport :: "json \<Rightarrow> json_Error + MessageReport" where
  "decode_MessageReport JNull = Inr zero_MessageReport"
| "decode_MessageReport (JObject kvs) = store_fields store_MessageReport kvs zero_MessageReport"
| "decode_MessageReport _ = Inl UnmarshalError"

fun decode_reports :: "json list \<Rightarrow> json_Error + MessageReport list" where
  "decode_reports [] = Inr []"
| "decode_reports (j # js) =
     (case decode_MessageReport j of
        Inl e \<Rightarrow> Inl e
      | Inr r \<Rightarrow> (case decode_reports js of Inl e \<Rightarrow> Inl e | Inr rs \<Rightarrow> Inr (r # rs)))"

definition zero_MessageResponse :: MessageResponse where
  "zero_MessageResponse = \<lparr>MessageCount = 0, Messages = []\<rparr>"

definition MessageResponse_names :: "string list" where
  "MessageResponse_names = [''message-count'', ''messages'']"

fun store_MessageResponse ::
  "string \<times> json \<Rightarrow> MessageResponse \<Rightarrow> json_Error + MessageResponse" where
  "store_MessageResponse (key, v) r =
     (case find_field MessageResponse_names key of
        None \<Rightarrow> Inr r
      | Some f \<Rightarrow>
          if f = ''message-count'' then put_quoted_int v (\<lambda>n. r\<lparr>MessageCount := n\<rparr>) r
          else (case v of
                  JNull \<Rightarrow> Inr (r\<lparr>Messages := []\<rparr>)
                | JArray js \<Rightarrow>
                    (case decode_reports js of
                       Inl e \<Rightarrow> Inl e
                     | Inr rs \<Rightarrow> Inr (r\<lparr>Messages := rs\<rparr>))
                | _ \<Rightarrow> Inl UnmarshalError))"

text \<open>
  Decoding into the nil \<^verbatim>\<open>*MessageResponse\<close> of \<^verbatim>\<open>Send\<close>: \<^verbatim>\<open>null\<close> leaves the pointer nil,
  an object allocates the struct and fills it.
\<close>

fun decode_MessageResponse :: "json \<Rightarrow> json_Error + MessageResponse option" where
  "decode_MessageResponse JNull = Inr None"
| "decode_MessageResponse (JObject kvs) =
     (case store_fields store_MessageResponse kvs zero_MessageResponse of
        Inl e \<Rightarrow> Inl e
      | Inr r \<Rightarrow> Inr (Some r))"
| "decode_MessageResponse _ = Inl UnmarshalError"

section \<open>The number management types\<close>

record NumberSearchOptions =
  Pattern :: string
  SearchPattern :: string

typedecl float64

record AvailableNumber =
  Country :: string
  MSISDN :: string
  num_Type :: string
  Features :: "string list"
  Cost :: float64

record NumberSearchResponse =
  Count :: int
  Numbers :: "AvailableNumber list"

definition zero_NumberSearchResponse :: NumberSearchResponse where
  "zero_NumberSearchResponse = \<lparr>Count = 0, Numbers = []\<rparr>"

section \<open>The world outside the package\<close>

text \<open>
  \<open>url_Parse_ok u\<close> says that \<^verbatim>\<open>http.NewRequest\<close> accepts the URL \<open>u\<close>; otherwise it returns
  a nil request and an error. \<open>client_Do\<close> is the network: the pair \<^verbatim>\<open>(resp, err)\<close> that
  \<^verbatim>\<open>client.Do(r)\<close> returns, \<open>None\<close> standing for nil. \<open>json_parse\<close> is the JSON text
  syntax of \<^verbatim>\<open>encoding/json\<close>, \<open>None\<close> for a syntax error. \<open>Unmarshal_search\<close> is
  \<^verbatim>\<open>json.Unmarshal\<close> into a zero \<^verbatim>\<open>NumberSearchResponse\<close>, whose cost field is a
  floating-point number: the value it leaves in the struct and its error.
\<close>

record World =
  url_Parse_ok :: "string \<Rightarrow> bool"
  client_Do :: "Request \<Rightarrow> Response option \<times> url_Error option"
  json_parse :: "bytes \<Rightarrow> json option"
  Unmarshal_search :: "bytes \<Rightarrow> NumberSearchResponse \<times> json_Error option"

text \<open>
  \<^verbatim>\<open>http.NewRequest(method, url, body)\<close> for the methods \<^verbatim>\<open>GET\<close> and \<^verbatim>\<open>POST\<close>; the package
  discards its error and uses the request, which is nil when the URL is refused.
\<close>

definition http_NewRequest ::
  "World \<Rightarrow> string \<Rightarrow> string \<Rightarrow> string option \<Rightarrow> Request option" where
  "http_NewRequest w method u body =
     (if url_Parse_ok w u
      then Some \<lparr>Method = method, req_URL = u, Header = [], req_Body = body\<rparr>
      else None)"

definition Header_Add :: "string \<Rightarrow> string \<Rightarrow> Request \<Rightarrow> Request" where
  "Header_Add key v r = r\<lparr>Header := Header r @ [(key, v)]\<rparr>"

definition Unmarshal_MessageResponse ::
  "World \<Rightarrow> bytes \<Rightarrow> json_Error + MessageResponse option" where
  "Unmarshal_MessageResponse w body =
     (case json_parse w body of
        None \<Rightarrow> Inl SyntaxError
      | Some j \<Rightarrow> decode_MessageResponse j)"

section \<open>Send\<close>

text \<open>
  Lines 208 to 237 of \<^verbatim>\<open>Send\<close>: the checks made before anything else happens. The value
  is the error of the first check that fails, \<open>None\<close> when control leaves the
  \<^verbatim>\<open>switch\<close> (which has no default case).
\<close>

definition Send_checks :: "SMSMessage \<Rightarrow> error option" where
  "Send_checks msg =
     (if length (From msg) \<le> 0 then Some (New ''Invalid From field specified'')
      else if length (To msg) \<le> 0 then Some (New ''Invalid To field specified'')
      else if length (ClientReference msg) > 40 then Some (New ''Client reference too long'')
      else if Type msg = Text_type then None
      else if Type msg = Unicode then
        (if length (Text msg) \<le> 0 then Some (New ''Invalid message text'') else None)
      else if Type msg = Binary then
        (if length (UDH msg) = 0 \<or> length (Body msg) = 0
         then Some (New ''Invalid binary message'') else None)
      else if Type msg = WAPPush then
        (if length (URL msg) = 0 \<or> length (Title msg) = 0
         then Some (New ''Invalid WAP Push parameters'') else None)
      else None)"

text \<open>
  \<^verbatim>\<open>Send\<close> returns the requests handed to \<^verbatim>\<open>client.Do\<close>, the message as the call leaves
  it (the caller passes a pointer, and the credentials are written into it), and the
  pair \<^verbatim>\<open>(*MessageResponse, error)\<close>. The log lines of verbose logging are not part of the
  model.
\<close>

definition Send ::
  "string \<Rightarrow> World \<Rightarrow> Client \<Rightarrow> SMSMessage \<Rightarrow>
     Request list \<times> SMSMessage \<times> (MessageResponse option \<times> error option) outcome" where
  "Send apiRoot w c msg =
     (case Send_checks msg of
        Some e \<Rightarrow> ([], msg, Return (None, Some e))
      | None \<Rightarrow>
          let msg = (if \<not> useOauth c
                     then msg\<lparr>msg_apiKey := apiKey c, msg_apiSecret := apiSecret c\<rparr>
                     else msg);
              messageValues = ToValues msg;
              messageValues = Add ''api_key'' (msg_apiKey msg) messageValues;
              messageValues = Add ''api_secret'' (msg_apiSecret msg) messageValues;
              encodedForm = Encode messageValues
          in (case http_NewRequest w ''POST'' (apiRoot @ ''/sms/json'') (Some encodedForm) of
                None \<Rightarrow> ([], msg, Panic)
              | Some r0 \<Rightarrow>
                  let r = Header_Add ''Accept'' ''application/json'' r0;
                      r = Header_Add ''Content-Type'' ''application/x-www-form-urlencoded'' r
                  in (case client_Do w r of
                        (resp, Some e) \<Rightarrow> ([r], msg, Return (None, Some (OfUrl e)))
                      | (None, None) \<Rightarrow> ([r], msg, Panic)
                      | (Some rs, None) \<Rightarrow>
                          (case Unmarshal_MessageResponse w (resp_Body rs) of
                             Inl e \<Rightarrow> ([r], msg, Return (None, Some (OfJson e)))
                           | Inr messageResponse \<Rightarrow>
                               ([r], msg, Return (messageResponse, None))))))"

section \<open>Number management\<close>

text \<open>
  Each function returns the requests handed to \<^verbatim>\<open>client.Do\<close> and its outcome. The
  statement \<^verbatim>\<open>defer resp.Body.Close()\<close> stands before the test of \<^verbatim>\<open>err\<close>: it evaluates
  \<^verbatim>\<open>resp.Body\<close> at once, and panics when \<^verbatim>\<open>resp\<close> is nil.
\<close>

definition SearchAvailableWithOptions ::
  "string \<Rightarrow> World \<Rightarrow> Client \<Rightarrow> string \<Rightarrow> NumberSearchOptions \<Rightarrow>
     Request list \<times> (NumberSearchResponse \<times> error option) outcome" where
  "SearchAvailableWithOptions apiRoot w c countryCode opts =
     (if length countryCode \<le> 0
      then ([], Return (zero_NumberSearchResponse,
                        Some (New ''Invalid country code field specified'')))
      else
        let requestUrl = apiRoot @ ''/number/search/'' @ apiKey c @ ''/'' @ apiSecret c
                           @ ''/'' @ countryCode;
            requestUrl =
              (if Pattern opts \<noteq> [] \<and> SearchPattern opts \<noteq> [] then
                 (let requestUrl = requestUrl @ ''?pattern='' @ QueryEscape (Pattern opts)
                  in if SearchPattern opts \<noteq> []
                     then requestUrl @ ''&search_pattern='' @ QueryEscape (SearchPattern opts)
                     else requestUrl)
               else requestUrl)
        in (case http_NewRequest w ''GET'' requestUrl None of
              None \<Rightarrow> ([], Panic)
            | Some r0 \<Rightarrow>
                let r = Header_Add ''Accept'' ''application/json'' r0
                in (case client_Do w r of
                      (None, err) \<Rightarrow> ([r], Panic)
                    | (Some rs, Some e) \<Rightarrow>
                        ([r], Return (zero_NumberSearchResponse, Some (OfUrl e)))
                    | (Some rs, None) \<Rightarrow>
                        (case Unmarshal_search w (resp_Body rs) of
                           (response, None) \<Rightarrow> ([r], Return (response, None))
                         | (response, Some e) \<Rightarrow>
                             ([r], Return (response, Some (OfJson e)))))))"

definition SearchAvailable ::
  "string \<Rightarrow> World \<Rightarrow> Client \<Rightarrow> string \<Rightarrow>
     Request list \<times> (NumberSearchResponse \<times> error option) outcome" where
  "SearchAvailable apiRoot w c countryCode =
     SearchAvailableWithOptions apiRoot w c countryCode \<lparr>Pattern = [], SearchPattern = []\<rparr>"

definition BuyPhoneNumber ::
  "string \<Rightarrow> World \<Rightarrow> Client \<Rightarrow> string \<Rightarrow> string \<Rightarrow>
     Request list \<times> (bool \<times> error option) outcome" where
  "BuyPhoneNumber apiRoot w c countryCode number =
     (if length countryCode \<le> 0
      then ([], Return (False, Some (New ''Invalid country code field specified'')))
      else if length number \<le> 0
      then ([], Return (False, Some (New ''Invalid number field specified'')))
      else
        let requestUrl = apiRoot @ ''/number/buy/'' @ apiKey c @ ''/'' @ apiSecret c
                           @ ''/'' @ countryCode @ ''/'' @ number
        in (case http_NewRequest w ''POST'' requestUrl None of
              None \<Rightarrow> ([], Panic)
            | Some r0 \<Rightarrow>
                let r = Header_Add ''Accept'' ''application/json'' r0
                in (case client_Do w r of
                      (None, err) \<Rightarrow> ([r], Panic)
                    | (Some rs, Some e) \<Rightarrow> ([r], Return (False, Some (OfUrl e)))
                    | (Some rs, None) \<Rightarrow>
                        if StatusCode rs = 200 then ([r], Return (True, None))
                        else if StatusCode rs = 401
                        then ([r], Return (False, Some (New ''Wrong credentials'')))
                        else if StatusCode rs = 420
                        then ([r], Return (False, Some (New ''Bad parameters'')))
                        else ([r], Return (False, Some (New ''Other error''))))))"

definition CancelPhoneNumber ::
  "string \<Rightarrow> World \<Rightarrow> Client \<Rightarrow> string \<Rightarrow> string \<Rightarrow>
     Request list \<times> (bool \<times> error option) outcome" where
  "CancelPhoneNumber apiRoot w c countryCode number =
     (if length countryCode \<le> 0
      then ([], Return (False, Some (New ''Invalid country code field specified'')))
      else if length number \<le> 0
      then ([], Return (False, Some (New ''Invalid number field specified'')))
      else
        let requestUrl = apiRoot @ ''/number/cancel/'' @ apiKey c @ ''/'' @ apiSecret c
                           @ ''/'' @ countryCode @ ''/'' @ number
        in (case http_NewRequest w ''POST'' requestUrl None of
              None \<Rightarrow> ([], Panic)
            | Some r0 \<Rightarrow>
                let r = Header_Add ''Accept'' ''application/json'' r0
                in (case client_Do w r of
                      (None, err) \<Rightarrow> ([r], Panic)
                    | (Some rs, Some e) \<Rightarrow> ([r], Return (False, Some (OfUrl e)))
                    | (Some rs, None) \<Rightarrow>
                        if StatusCode rs = 200 then ([r], Return (True, None))
                        else if StatusCode rs = 401
                        then ([r], Return (False, Some (New ''Wrong credentials'')))
                        else if StatusCode rs = 420
                        then ([r], Return (False, Some (New ''Bad parameters'')))
                        else ([r], Return (False, Some (New ''Other error''))))))"

section \<open>Example values\<close>

text \<open>Concrete clients, worlds and messages at which the theorems below are instantiated.\<close>

definition example_root :: string where
  "example_root = ''https://rest.nexmo.com''"

definition example_Client :: Client where
  "example_Client =
     \<lparr>apiKey = ''key'', apiSecret = ''secret'', useOauth = False, VerboseLogging = False\<rparr>"

text \<open>A world whose network is down: \<^verbatim>\<open>client.Do\<close> returns a nil response and an error.\<close>

definition World_unreachable :: World where
  "World_unreachable =
     \<lparr>url_Parse_ok = (\<lambda>u. True),
      client_Do = (\<lambda>r. (None, Some (UrlError ''dial tcp: connection refused''))),
      json_parse = (\<lambda>b. None),
      Unmarshal_search = (\<lambda>b. (zero_NumberSearchResponse, None))\<rparr>"

text \<open>A world whose server answers every request with the status \<open>s\<close> and an empty body.\<close>

definition World_status :: "int \<Rightarrow> World" where
  "World_status s =
     \<lparr>url_Parse_ok = (\<lambda>u. True),
      client_Do = (\<lambda>r. (Some \<lparr>StatusCode = s, resp_Body = []\<rparr>, None)),
      json_parse = (\<lambda>b. None),
      Unmarshal_search = (\<lambda>b. (zero_NumberSearchResponse, None))\<rparr>"

definition example_message :: SMSMessage where
  "example_message =
     \<lparr>msg_apiKey = [], msg_apiSecret = [], From = ''sender'', To = ''447700900000'',
      Type = ''text'', Text = [], StatusReportRequired = 0, ClientReference = [],
      NetworkCode = [], VCard = [], VCal = [], TTL = 0, Class = 0, Body = [], UDH = [],
      Title = [], URL = [], Validity = 0\<rparr>"

text \<open>Three report objects of a message response, as parsed JSON.\<close>

definition example_report_1 :: "(string \<times> json) list" where
  "example_report_1 =
     [(''to'', JString ''447700900000''), (''message-id'', JString ''0A0000000123ABCD1''),
      (''status'', JString ''0''), (''remaining-balance'', JString ''3.14159265''),
      (''message-price'', JString ''0.03330000''), (''network'', JString ''23410'')]"

definition example_report_2 :: "(string \<times> json) list" where
  "example_report_2 =
     [(''to'', JString ''447700900000''), (''status'', JString ''4''),
      (''error-text'', JString ''Bad Credentials'')]"

definition example_report_3 :: "(string \<times> json) list" where
  "example_report_3 = [(''status'', JString ''9''), (''client-ref'', JString ''ref-3'')]"

text \<open>The requests the number functions build for a URL \<open>u\<close>.\<close>

definition number_request :: "string \<Rightarrow> Request" where
  "number_request u =
     \<lparr>Method = ''POST'', req_URL = u, Header = [(''Accept'', ''application/json'')],
      req_Body = None\<rparr>"

definition search_request :: "string \<Rightarrow> Request" where
  "search_request u =
     \<lparr>Method = ''GET'', req_URL = u, Header = [(''Accept'', ''application/json'')],
      req_Body = None\<rparr>"

abbreviation number_path :: "Client \<Rightarrow> string \<Rightarrow> string \<Rightarrow> string" where
  "number_path c countryCode number \<equiv>
     apiKey c @ ''/'' @ apiSecret c @ ''/'' @ countryCode @ ''/'' @ number"

text \<open>The request \<^verbatim>\<open>Send\<close> builds for the encoded form \<open>form\<close>.\<close>

definition sms_request :: "string \<Rightarrow> string \<Rightarrow> Request" where
  "sms_request apiRoot form =
     \<lparr>Method = ''POST'', req_URL = apiRoot @ ''/sms/json'',
      Header = [(''Accept'', ''application/json''),
                (''Content-Type'', ''application/x-www-form-urlencoded'')],
      req_Body = Some form\<rparr>"

text \<open>The statement \<^verbatim>\<open>if c { vals.Add(key, v) }\<close> as one operation, for the proofs.\<close>

definition Add_when :: "bool \<Rightarrow> string \<Rightarrow> string \<Rightarrow> Values \<Rightarrow> Values" where
  "Add_when c key v vals = (if c then Add key v vals else vals)"

section \<open>Transport errors\<close>

lemma BuyPhoneNumber_nil_response:
  assumes "countryCode \<noteq> []" and "number \<noteq> []"
    and "url_Parse_ok w (apiRoot @ ''/number/buy/'' @ number_path c countryCode number)"
    and "fst (client_Do w (number_request
           (apiRoot @ ''/number/buy/'' @ number_path c countryCode number))) = None"
  shows "snd (BuyPhoneNumber apiRoot w c countryCode number) = Panic"
  using assms
  by (auto simp add: BuyPhoneNumber_def http_NewRequest_def Header_Add_def number_request_def
        Let_def split: prod.splits option.splits)

lemma CancelPhoneNumber_nil_response:
  assumes "countryCode \<noteq> []" and "number \<noteq> []"
    and "url_Parse_ok w (apiRoot @ ''/number/cancel/'' @ number_path c countryCode number)"
    and "fst (client_Do w (number_request
           (apiRoot @ ''/number/cancel/'' @ number_path c countryCode number))) = None"
  shows "snd (CancelPhoneNumber apiRoot w c countryCode number) = Panic"
  using assms
  by (auto simp add: CancelPhoneNumber_def http_NewRequest_def Header_Add_def number_request_def
        Let_def split: prod.splits option.splits)

lemma SearchAvailable_nil_response:
  assumes "countryCode \<noteq> []"
    and "url_Parse_ok w (apiRoot @ ''/number/search/'' @ apiKey c @ ''/'' @ apiSecret c
           @ ''/'' @ countryCode)"
    and "fst (client_Do w (search_request
           (apiRoot @ ''/number/search/'' @ apiKey c @ ''/'' @ apiSecret c
              @ ''/'' @ countryCode))) = None"
  shows "snd (SearchAvailable apiRoot w c countryCode) = Panic"
  using assms
  by (auto simp add: SearchAvailable_def SearchAvailableWithOptions_def http_NewRequest_def
        Header_Add_def search_request_def Let_def split: prod.splits option.splits)

text \<open>
  \<^verbatim>\<open>Send\<close> tests \<^verbatim>\<open>err\<close> before it defers the close of the body: in the same world it
  returns the transport error.
\<close>

lemma Send_returns_transport_error:
  "snd (snd (Send example_root World_unreachable example_Client example_message)) =
     Return (None, Some (OfUrl (UrlError ''dial tcp: connection refused'')))"
  by (simp add: Send_def Send_checks_def example_message_def Text_type_def
        http_NewRequest_def World_unreachable_def Let_def)

text \<open>
  C1: when the HTTP request of \<^verbatim>\<open>SearchAvailableWithOptions\<close>, \<^verbatim>\<open>BuyPhoneNumber\<close> or
  \<^verbatim>\<open>CancelPhoneNumber\<close> fails with a transport error, the operation should return that
  error to the caller and not panic. The code does not: in a world whose network is
  down, each of the three calls ends in a panic.
\<close>

theorem number_calls_panic_on_transport_error:
  "snd (SearchAvailableWithOptions example_root World_unreachable example_Client ''US''
          \<lparr>Pattern = [], SearchPattern = []\<rparr>) = Panic
   \<and> snd (BuyPhoneNumber example_root World_unreachable example_Client ''US'' ''12345'') = Panic
   \<and> snd (CancelPhoneNumber example_root World_unreachable example_Client ''US'' ''12345'')
       = Panic"
  by (simp add: SearchAvailableWithOptions_def BuyPhoneNumber_def CancelPhoneNumber_def
        http_NewRequest_def World_unreachable_def Let_def)

section \<open>Buying and cancelling a number\<close>

text \<open>
  C4: \<^verbatim>\<open>BuyPhoneNumber\<close> with an empty country code or an empty number returns an error
  without a network call. Otherwise, when the request is answered, the result follows
  from the HTTP status code alone: 200 gives \<^verbatim>\<open>(true, nil)\<close>, 401 the error "Wrong
  credentials", 420 the error "Bad parameters", any other status the error "Other
  error"; the body \<open>resp_Body rs\<close> of the response plays no part, and neither does any
  JSON decoder of the world.
\<close>

theorem BuyPhoneNumber_status:
  "(countryCode = [] \<longrightarrow>
      BuyPhoneNumber apiRoot w c countryCode number =
        ([], Return (False, Some (New ''Invalid country code field specified''))))
   \<and> (countryCode \<noteq> [] \<and> number = [] \<longrightarrow>
      BuyPhoneNumber apiRoot w c countryCode number =
        ([], Return (False, Some (New ''Invalid number field specified''))))
   \<and> (countryCode \<noteq> [] \<and> number \<noteq> []
       \<and> url_Parse_ok w (apiRoot @ ''/number/buy/'' @ number_path c countryCode number)
       \<and> client_Do w (number_request
             (apiRoot @ ''/number/buy/'' @ number_path c countryCode number)) = (Some rs, None)
       \<longrightarrow>
      BuyPhoneNumber apiRoot w c countryCode number =
        ([number_request (apiRoot @ ''/number/buy/'' @ number_path c countryCode number)],
         Return (if StatusCode rs = 200 then (True, None)
                 else if StatusCode rs = 401 then (False, Some (New ''Wrong credentials''))
                 else if StatusCode rs = 420 then (False, Some (New ''Bad parameters''))
                 else (False, Some (New ''Other error'')))))
   \<and> BuyPhoneNumber apiRoot (w\<lparr>json_parse := p, Unmarshal_search := u\<rparr>) c countryCode number
       = BuyPhoneNumber apiRoot w c countryCode number"
  by (simp add: BuyPhoneNumber_def http_NewRequest_def Header_Add_def number_request_def
        Let_def)

theorem BuyPhoneNumber_status_witness:
  "BuyPhoneNumber example_root (World_status 200) example_Client [] [] =
     ([], Return (False, Some (New ''Invalid country code field specified'')))
   \<and> BuyPhoneNumber example_root (World_status 200) example_Client ''US'' [] =
     ([], Return (False, Some (New ''Invalid number field specified'')))
   \<and> snd (BuyPhoneNumber example_root (World_status 200) example_Client ''US'' ''12345'') =
     Return (True, None)
   \<and> snd (BuyPhoneNumber example_root (World_status 401) example_Client ''US'' ''12345'') =
     Return (False, Some (New ''Wrong credentials''))
   \<and> snd (BuyPhoneNumber example_root (World_status 420) example_Client ''US'' ''12345'') =
     Return (False, Some (New ''Bad parameters''))
   \<and> snd (BuyPhoneNumber example_root (World_status 500) example_Client ''US'' ''12345'') =
     Return (False, Some (New ''Other error''))"
  using
    BuyPhoneNumber_status [where countryCode = "[]" and number = "[]"
      and apiRoot = example_root and w = "World_status 200" and c = example_Client]
    BuyPhoneNumber_status [where countryCode = "''US''" and number = "[]"
      and apiRoot = example_root and w = "World_status 200" and c = example_Client]
    BuyPhoneNumber_status [where countryCode = "''US''" and number = "''12345''"
      and apiRoot = example_root and w = "World_status 200" and c = example_Client
      and rs = "\<lparr>StatusCode = 200, resp_Body = []\<rparr>"]
    BuyPhoneNumber_status [where countryCode = "''US''" and number = "''12345''"
      and apiRoot = example_root and w = "World_status 401" and c = example_Client
      and rs = "\<lparr>StatusCode = 401, resp_Body = []\<rparr>"]
    BuyPhoneNumber_status [where countryCode = "''US''" and number = "''12345''"
      and apiRoot = example_root and w = "World_status 420" and c = example_Client
      and rs = "\<lparr>StatusCode = 420, resp_Body = []\<rparr>"]
    BuyPhoneNumber_status [where countryCode = "''US''" and number = "''12345''"
      and apiRoot = example_root and w = "World_status 500" and c = example_Client
      and rs = "\<lparr>StatusCode = 500, resp_Body = []\<rparr>"]
  by (simp add: World_status_def)

text \<open>
  C5: for every country code, number and answer of the network, \<^verbatim>\<open>CancelPhoneNumber\<close>
  validates its arguments and maps the status code as \<^verbatim>\<open>BuyPhoneNumber\<close> does. With
  an empty argument both return the same error and issue no request. When the world
  treats the cancel request as it treats the buy request, both have the same outcome,
  and their requests differ in the URL only, \<^verbatim>\<open>/number/cancel/\<close> standing for
  \<^verbatim>\<open>/number/buy/\<close>.
\<close>

theorem CancelPhoneNumber_as_BuyPhoneNumber:
  "(countryCode = [] \<or> number = [] \<longrightarrow>
      CancelPhoneNumber apiRoot w c countryCode number =
        BuyPhoneNumber apiRoot w c countryCode number
      \<and> fst (BuyPhoneNumber apiRoot w c countryCode number) = [])
   \<and> (url_Parse_ok w (apiRoot @ ''/number/cancel/'' @ number_path c countryCode number) =
        url_Parse_ok w (apiRoot @ ''/number/buy/'' @ number_path c countryCode number)
       \<and> client_Do w (number_request
             (apiRoot @ ''/number/cancel/'' @ number_path c countryCode number)) =
           client_Do w (number_request
             (apiRoot @ ''/number/buy/'' @ number_path c countryCode number))
       \<longrightarrow>
      snd (CancelPhoneNumber apiRoot w c countryCode number) =
        snd (BuyPhoneNumber apiRoot w c countryCode number)
      \<and> fst (CancelPhoneNumber apiRoot w c countryCode number) =
          map (\<lambda>r. r\<lparr>req_URL :=
                 apiRoot @ ''/number/cancel/'' @ number_path c countryCode number\<rparr>)
            (fst (BuyPhoneNumber apiRoot w c countryCode number))
      \<and> fst (BuyPhoneNumber apiRoot w c countryCode number) =
          map (\<lambda>r. number_request
                 (apiRoot @ ''/number/buy/'' @ number_path c countryCode number))
            (fst (BuyPhoneNumber apiRoot w c countryCode number)))"
  by (auto simp add: CancelPhoneNumber_def BuyPhoneNumber_def http_NewRequest_def
        Header_Add_def number_request_def Let_def split: prod.splits option.splits)

theorem CancelPhoneNumber_as_BuyPhoneNumber_witness:
  "CancelPhoneNumber example_root (World_status 200) example_Client [] ''12345'' =
     BuyPhoneNumber example_root (World_status 200) example_Client [] ''12345''
   \<and> snd (CancelPhoneNumber example_root (World_status 401) example_Client ''US'' ''12345'') =
       snd (BuyPhoneNumber example_root (World_status 401) example_Client ''US'' ''12345'')
   \<and> fst (CancelPhoneNumber example_root (World_status 401) example_Client ''US'' ''12345'') =
       map (\<lambda>r. r\<lparr>req_URL := ''https://rest.nexmo.com/number/cancel/key/secret/US/12345''\<rparr>)
         (fst (BuyPhoneNumber example_root (World_status 401) example_Client ''US'' ''12345''))"
  using
    CancelPhoneNumber_as_BuyPhoneNumber [where countryCode = "[]" and number = "''12345''"
      and apiRoot = example_root and w = "World_status 200" and c = example_Client]
    CancelPhoneNumber_as_BuyPhoneNumber [where countryCode = "''US''" and number = "''12345''"
      and apiRoot = example_root and w = "World_status 401" and c = example_Client]
  by (simp add: World_status_def example_root_def example_Client_def)

section \<open>Searching for numbers\<close>

text \<open>
  C6: for every non-empty country code and every options value,
  \<^verbatim>\<open>SearchAvailableWithOptions\<close> appends the query parameters \<^verbatim>\<open>pattern\<close> and
  \<^verbatim>\<open>search_pattern\<close> to the request URL exactly when both options are non-empty; when
  one of them is empty the URL is the bare path, with neither parameter. The URL is the
  one of the request handed to \<^verbatim>\<open>client.Do\<close>.
\<close>

theorem SearchAvailableWithOptions_query:
  assumes "countryCode \<noteq> []"
  shows
    "(Pattern opts \<noteq> [] \<and> SearchPattern opts \<noteq> []
      \<and> url_Parse_ok w
           (apiRoot @ ''/number/search/'' @ apiKey c @ ''/'' @ apiSecret c @ ''/'' @ countryCode
              @ ''?pattern='' @ QueryEscape (Pattern opts)
              @ ''&search_pattern='' @ QueryEscape (SearchPattern opts))
      \<longrightarrow>
        fst (SearchAvailableWithOptions apiRoot w c countryCode opts) =
          [search_request
             (apiRoot @ ''/number/search/'' @ apiKey c @ ''/'' @ apiSecret c @ ''/''
                @ countryCode
                @ ''?pattern='' @ QueryEscape (Pattern opts)
                @ ''&search_pattern='' @ QueryEscape (SearchPattern opts))])
     \<and> ((Pattern opts = [] \<or> SearchPattern opts = [])
        \<and> url_Parse_ok w
             (apiRoot @ ''/number/search/'' @ apiKey c @ ''/'' @ apiSecret c @ ''/''
                @ countryCode)
      \<longrightarrow>
        fst (SearchAvailableWithOptions apiRoot w c countryCode opts) =
          [search_request
             (apiRoot @ ''/number/search/'' @ apiKey c @ ''/'' @ apiSecret c @ ''/''
                @ countryCode)])"
  using assms
  by (auto simp add: SearchAvailableWithOptions_def http_NewRequest_def Header_Add_def
        search_request_def Let_def split: prod.splits option.splits)

theorem SearchAvailableWithOptions_query_witness:
  "map req_URL (fst (SearchAvailableWithOptions example_root (World_status 200) example_Client
          ''US'' \<lparr>Pattern = ''1985'', SearchPattern = ''0''\<rparr>)) =
     [''https://rest.nexmo.com/number/search/key/secret/US?pattern=1985&search_pattern=0'']
   \<and> map req_URL (fst (SearchAvailableWithOptions example_root (World_status 200)
          example_Client ''US'' \<lparr>Pattern = ''1985'', SearchPattern = []\<rparr>)) =
     [''https://rest.nexmo.com/number/search/key/secret/US'']
   \<and> map req_URL (fst (SearchAvailableWithOptions example_root (World_status 200)
          example_Client ''US'' \<lparr>Pattern = [], SearchPattern = ''0''\<rparr>)) =
     [''https://rest.nexmo.com/number/search/key/secret/US'']"
  using
    SearchAvailableWithOptions_query [where countryCode = "''US''" and apiRoot = example_root
      and w = "World_status 200" and c = example_Client
      and opts = "\<lparr>Pattern = ''1985'', SearchPattern = ''0''\<rparr>"]
    SearchAvailableWithOptions_query [where countryCode = "''US''" and apiRoot = example_root
      and w = "World_status 200" and c = example_Client
      and opts = "\<lparr>Pattern = ''1985'', SearchPattern = []\<rparr>"]
    SearchAvailableWithOptions_query [where countryCode = "''US''" and apiRoot = example_root
      and w = "World_status 200" and c = example_Client
      and opts = "\<lparr>Pattern = [], SearchPattern = ''0''\<rparr>"]
  by (simp add: World_status_def example_root_def example_Client_def search_request_def
        shouldEscape_def)

section \<open>The form values of a message\<close>

lemma ToValues_chain:
  "ToValues msg =
     Add_when (length (UDH msg) > 0) ''udh'' (UDH msg)
      (Add_when (length (Body msg) > 0) ''body'' (Body msg)
        (Add_when (TTL msg \<noteq> 0) ''ttl'' (Itoa (TTL msg))
          (Add_when (VCal msg \<noteq> []) ''vcal'' (VCal msg)
            (Add_when (VCard msg \<noteq> []) ''vcard'' (VCard msg)
              (Add_when (NetworkCode msg \<noteq> []) ''network-code'' (NetworkCode msg)
                (Add_when (ClientReference msg \<noteq> []) ''client-ref'' (ClientReference msg)
                  (Add_when (StatusReportRequired msg \<noteq> 0) ''status-report-req''
                     (Itoa (StatusReportRequired msg))
                    (Add_when (Text msg \<noteq> []) ''text'' (Text msg)
                      (Add ''type'' (Type msg)
                        (Add ''to'' (To msg)
                          (Add ''from'' (From msg) Mapping.empty)))))))))))"
  unfolding ToValues_def Add_when_def[symmetric] Let_def by (rule refl)

lemma lookup_Add:
  "Mapping.lookup (Add k v m) k' =
     (if k = k' then Some (Mapping.lookup_default [] m k @ [v]) else Mapping.lookup m k')"
  by (simp add: Add_def Mapping.lookup_update')

lemma lookup_Add_when:
  "Mapping.lookup (Add_when c k v m) k' =
     (if c \<and> k = k' then Some (Mapping.lookup_default [] m k @ [v]) else Mapping.lookup m k')"
  by (simp add: Add_when_def lookup_Add)

lemma keys_Add: "k' \<in> Mapping.keys (Add k v m) \<longleftrightarrow> k' = k \<or> k' \<in> Mapping.keys m"
  by (simp add: Add_def)

lemma keys_Add_when:
  "k' \<in> Mapping.keys (Add_when c k v m) \<longleftrightarrow> (c \<and> k' = k) \<or> k' \<in> Mapping.keys m"
  by (simp add: Add_when_def keys_Add)

lemmas ToValues_lookup_simps =
  ToValues_chain lookup_Add_when lookup_Add Mapping.lookup_default_def

text \<open>
  C7: for every message, \<^verbatim>\<open>ToValues\<close> holds each optional field (text,
  status-report-req, client-ref, network-code, vcard, vcal, ttl, body, udh) under that
  exact key, with the field's value as the only entry, exactly when the field is non-empty
  (for the two integers: non-zero); when the field is empty or zero the key is absent.
\<close>

theorem ToValues_optional_fields:
  "Mapping.lookup (ToValues msg) ''text'' =
     (if Text msg = [] then None else Some [Text msg])
   \<and> Mapping.lookup (ToValues msg) ''status-report-req'' =
     (if StatusReportRequired msg = 0 then None
      else Some [Itoa (StatusReportRequired msg)])
   \<and> Mapping.lookup (ToValues msg) ''client-ref'' =
     (if ClientReference msg = [] then None else Some [ClientReference msg])
   \<and> Mapping.lookup (ToValues msg) ''network-code'' =
     (if NetworkCode msg = [] then None else Some [NetworkCode msg])
   \<and> Mapping.lookup (ToValues msg) ''vcard'' =
     (if VCard msg = [] then None else Some [VCard msg])
   \<and> Mapping.lookup (ToValues msg) ''vcal'' =
     (if VCal msg = [] then None else Some [VCal msg])
   \<and> Mapping.lookup (ToValues msg) ''ttl'' =
     (if TTL msg = 0 then None else Some [Itoa (TTL msg)])
   \<and> Mapping.lookup (ToValues msg) ''body'' =
     (if Body msg = [] then None else Some [Body msg])
   \<and> Mapping.lookup (ToValues msg) ''udh'' =
     (if UDH msg = [] then None else Some [UDH msg])"
  by (simp add: ToValues_lookup_simps)

text \<open>
  C8: for every message and every value of its message class, the form values of
  \<^verbatim>\<open>ToValues\<close> hold no key \<^verbatim>\<open>message-class\<close>: the keys are among the twelve listed, and
  the values do not depend on the field \<^verbatim>\<open>Class\<close> at all.
\<close>

theorem ToValues_no_message_class:
  "Mapping.lookup (ToValues msg) ''message-class'' = None
   \<and> ''message-class'' \<notin> Mapping.keys (ToValues msg)
   \<and> Mapping.keys (ToValues msg) \<subseteq>
       {''from'', ''to'', ''type'', ''text'', ''status-report-req'', ''client-ref'',
        ''network-code'', ''vcard'', ''vcal'', ''ttl'', ''body'', ''udh''}
   \<and> ToValues (msg\<lparr>Class := k\<rparr>) = ToValues msg"
proof -
  have none: "Mapping.lookup (ToValues msg) ''message-class'' = None"
    by (simp add: ToValues_lookup_simps)
  have absent: "''message-class'' \<notin> Mapping.keys (ToValues msg)"
    unfolding ToValues_chain keys_Add_when keys_Add by simp
  have "x \<in> {''from'', ''to'', ''type'', ''text'', ''status-report-req'', ''client-ref'',
        ''network-code'', ''vcard'', ''vcal'', ''ttl'', ''body'', ''udh''}"
    if "x \<in> Mapping.keys (ToValues msg)" for x
    using that unfolding ToValues_chain keys_Add_when keys_Add by auto
  then have keys: "Mapping.keys (ToValues msg) \<subseteq>
       {''from'', ''to'', ''type'', ''text'', ''status-report-req'', ''client-ref'',
        ''network-code'', ''vcard'', ''vcal'', ''ttl'', ''body'', ''udh''}"
    by (rule subsetI)
  have same: "ToValues (msg\<lparr>Class := k\<rparr>) = ToValues msg"
    by (simp add: ToValues_chain)
  from none absent keys same show ?thesis by (intro conjI)
qed

section \<open>The checks of Send\<close>

lemma Send_fails:
  "Send_checks msg = Some e \<Longrightarrow> Send apiRoot w c msg = ([], msg, Return (None, Some e))"
  by (simp add: Send_def)

lemma Send_passes_no_New:
  "Send_checks msg = None \<Longrightarrow> snd (snd (Send apiRoot w c msg)) \<noteq> Return (x, Some (New s))"
  by (auto simp add: Send_def Let_def split: option.splits prod.splits sum.splits)

lemma Send_passes_request:
  assumes "Send_checks msg = None" and "url_Parse_ok w (apiRoot @ ''/sms/json'')"
  shows "\<exists>form. fst (Send apiRoot w c msg) = [sms_request apiRoot form]"
  using assms
  by (auto simp add: Send_def Let_def http_NewRequest_def Header_Add_def sms_request_def
        split: option.splits prod.splits sum.splits)

lemma Send_checks_From:
  "Send_checks msg = Some (New ''Invalid From field specified'') \<longleftrightarrow> From msg = []"
  by (simp add: Send_checks_def)

lemma Send_checks_To:
  "Send_checks msg = Some (New ''Invalid To field specified'') \<longleftrightarrow>
     From msg \<noteq> [] \<and> To msg = []"
  by (simp add: Send_checks_def)

lemma Send_checks_ClientReference:
  "Send_checks msg = Some (New ''Client reference too long'') \<longleftrightarrow>
     From msg \<noteq> [] \<and> To msg \<noteq> [] \<and> length (ClientReference msg) > 40"
  by (simp add: Send_checks_def)

lemma Send_outcome_New:
  "snd (snd (Send apiRoot w c msg)) = Return (x, Some (New s)) \<Longrightarrow>
     Send_checks msg = Some (New s)"
proof (cases "Send_checks msg")
  case None
  assume "snd (snd (Send apiRoot w c msg)) = Return (x, Some (New s))"
  with Send_passes_no_New [OF None] show ?thesis by blast
next
  case (Some e)
  assume "snd (snd (Send apiRoot w c msg)) = Return (x, Some (New s))"
  with Send_fails [OF Some] show ?thesis using Some by simp
qed

text \<open>
  C2: for every message with an empty sender, an empty recipient or a client reference
  longer than 40 characters (bytes, as \<^verbatim>\<open>len\<close> counts them), \<^verbatim>\<open>Send\<close> returns a
  validation error, issues no request and leaves the message as it was; and for every
  message that passes one of these checks, the error of that check is not the result.
\<close>

theorem Send_required_fields:
  "(From msg = [] \<longrightarrow>
      Send apiRoot w c msg =
        ([], msg, Return (None, Some (New ''Invalid From field specified''))))
   \<and> (From msg \<noteq> [] \<and> To msg = [] \<longrightarrow>
      Send apiRoot w c msg =
        ([], msg, Return (None, Some (New ''Invalid To field specified''))))
   \<and> (From msg \<noteq> [] \<and> To msg \<noteq> [] \<and> length (ClientReference msg) > 40 \<longrightarrow>
      Send apiRoot w c msg =
        ([], msg, Return (None, Some (New ''Client reference too long''))))
   \<and> (From msg \<noteq> [] \<longrightarrow>
      (\<forall>x. snd (snd (Send apiRoot w c msg)) \<noteq>
             Return (x, Some (New ''Invalid From field specified''))))
   \<and> (To msg \<noteq> [] \<longrightarrow>
      (\<forall>x. snd (snd (Send apiRoot w c msg)) \<noteq>
             Return (x, Some (New ''Invalid To field specified''))))
   \<and> (length (ClientReference msg) \<le> 40 \<longrightarrow>
      (\<forall>x. snd (snd (Send apiRoot w c msg)) \<noteq>
             Return (x, Some (New ''Client reference too long''))))"
proof (intro conjI impI allI)
  assume "From msg = []"
  then show "Send apiRoot w c msg =
      ([], msg, Return (None, Some (New ''Invalid From field specified'')))"
    by (simp add: Send_fails Send_checks_From)
next
  assume "From msg \<noteq> [] \<and> To msg = []"
  then show "Send apiRoot w c msg =
      ([], msg, Return (None, Some (New ''Invalid To field specified'')))"
    by (simp add: Send_fails Send_checks_To)
next
  assume "From msg \<noteq> [] \<and> To msg \<noteq> [] \<and> length (ClientReference msg) > 40"
  then show "Send apiRoot w c msg =
      ([], msg, Return (None, Some (New ''Client reference too long'')))"
    by (simp add: Send_fails Send_checks_ClientReference)
next
  fix x
  assume "From msg \<noteq> []"
  then show "snd (snd (Send apiRoot w c msg)) \<noteq>
      Return (x, Some (New ''Invalid From field specified''))"
    using Send_outcome_New [of apiRoot w c msg x] Send_checks_From [of msg] by blast
next
  fix x
  assume "To msg \<noteq> []"
  then show "snd (snd (Send apiRoot w c msg)) \<noteq>
      Return (x, Some (New ''Invalid To field specified''))"
    using Send_outcome_New [of apiRoot w c msg x] Send_checks_To [of msg] by blast
next
  fix x
  assume "length (ClientReference msg) \<le> 40"
  then show "snd (snd (Send apiRoot w c msg)) \<noteq>
      Return (x, Some (New ''Client reference too long''))"
    using Send_outcome_New [of apiRoot w c msg x] Send_checks_ClientReference [of msg]
    by (metis not_less)
qed

theorem Send_required_fields_witness:
  "Send example_root World_unreachable example_Client (example_message\<lparr>From := []\<rparr>) =
     ([], example_message\<lparr>From := []\<rparr>,
      Return (None, Some (New ''Invalid From field specified'')))
   \<and> Send example_root World_unreachable example_Client (example_message\<lparr>To := []\<rparr>) =
     ([], example_message\<lparr>To := []\<rparr>,
      Return (None, Some (New ''Invalid To field specified'')))
   \<and> Send example_root World_unreachable example_Client
        (example_message\<lparr>ClientReference := replicate 41 (CHR ''x'')\<rparr>) =
     ([], example_message\<lparr>ClientReference := replicate 41 (CHR ''x'')\<rparr>,
      Return (None, Some (New ''Client reference too long'')))
   \<and> snd (snd (Send example_root World_unreachable example_Client
        (example_message\<lparr>ClientReference := replicate 40 (CHR ''x'')\<rparr>))) \<noteq>
     Return (None, Some (New ''Client reference too long''))
   \<and> snd (snd (Send example_root World_unreachable example_Client example_message)) \<noteq>
     Return (None, Some (New ''Invalid From field specified''))
   \<and> snd (snd (Send example_root World_unreachable example_Client example_message)) \<noteq>
     Return (None, Some (New ''Invalid To field specified''))"
  using
    Send_required_fields [where msg = "example_message\<lparr>From := []\<rparr>"
      and apiRoot = example_root and w = World_unreachable and c = example_Client]
    Send_required_fields [where msg = "example_message\<lparr>To := []\<rparr>"
      and apiRoot = example_root and w = World_unreachable and c = example_Client]
    Send_required_fields [where
      msg = "example_message\<lparr>ClientReference := replicate 41 (CHR ''x'')\<rparr>"
      and apiRoot = example_root and w = World_unreachable and c = example_Client]
    Send_required_fields [where
      msg = "example_message\<lparr>ClientReference := replicate 40 (CHR ''x'')\<rparr>"
      and apiRoot = example_root and w = World_unreachable and c = example_Client]
    Send_required_fields [where msg = example_message
      and apiRoot = example_root and w = World_unreachable and c = example_Client]
  by (simp add: example_message_def)

text \<open>
  C3: for every message with a non-empty sender, a non-empty recipient and a client
  reference of at most 40 characters, the checks by message type are these: a unicode
  message with an empty text fails, a binary message with an empty payload or an empty
  header fails, a WAP push message with an empty URL or an empty title fails, each with
  its own error and without a request; a text message passes the checks whatever its
  other fields hold (in particular with only the required fields), and its request is
  handed to \<^verbatim>\<open>client.Do\<close>.
\<close>

theorem Send_type_checks:
  assumes "From msg \<noteq> []" and "To msg \<noteq> []" and "length (ClientReference msg) \<le> 40"
  shows
    "(Type msg = Unicode \<and> Text msg = [] \<longrightarrow>
        Send apiRoot w c msg = ([], msg, Return (None, Some (New ''Invalid message text''))))
     \<and> (Type msg = Binary \<and> (Body msg = [] \<or> UDH msg = []) \<longrightarrow>
        Send apiRoot w c msg = ([], msg, Return (None, Some (New ''Invalid binary message''))))
     \<and> (Type msg = WAPPush \<and> (URL msg = [] \<or> Title msg = []) \<longrightarrow>
        Send apiRoot w c msg =
          ([], msg, Return (None, Some (New ''Invalid WAP Push parameters''))))
     \<and> (Type msg = Text_type \<longrightarrow>
        Send_checks msg = None
        \<and> (\<forall>x s. snd (snd (Send apiRoot w c msg)) \<noteq> Return (x, Some (New s)))
        \<and> (url_Parse_ok w (apiRoot @ ''/sms/json'') \<longrightarrow>
             (\<exists>form. fst (Send apiRoot w c msg) = [sms_request apiRoot form])))"
proof (intro conjI impI allI)
  assume "Type msg = Unicode \<and> Text msg = []"
  with assms have "Send_checks msg = Some (New ''Invalid message text'')"
    by (simp add: Send_checks_def Unicode_def Text_type_def)
  then show "Send apiRoot w c msg = ([], msg, Return (None, Some (New ''Invalid message text'')))"
    by (rule Send_fails)
next
  assume "Type msg = Binary \<and> (Body msg = [] \<or> UDH msg = [])"
  with assms have "Send_checks msg = Some (New ''Invalid binary message'')"
    by (auto simp add: Send_checks_def Unicode_def Text_type_def Binary_def)
  then show "Send apiRoot w c msg =
      ([], msg, Return (None, Some (New ''Invalid binary message'')))"
    by (rule Send_fails)
next
  assume "Type msg = WAPPush \<and> (URL msg = [] \<or> Title msg = [])"
  with assms have "Send_checks msg = Some (New ''Invalid WAP Push parameters'')"
    by (auto simp add: Send_checks_def Unicode_def Text_type_def Binary_def WAPPush_def)
  then show "Send apiRoot w c msg =
      ([], msg, Return (None, Some (New ''Invalid WAP Push parameters'')))"
    by (rule Send_fails)
next
  assume "Type msg = Text_type"
  with assms show passes: "Send_checks msg = None"
    by (simp add: Send_checks_def)
  fix x s
  show "snd (snd (Send apiRoot w c msg)) \<noteq> Return (x, Some (New s))"
    by (rule Send_passes_no_New [OF passes])
next
  assume "Type msg = Text_type" and "url_Parse_ok w (apiRoot @ ''/sms/json'')"
  with assms show "\<exists>form. fst (Send apiRoot w c msg) = [sms_request apiRoot form]"
    by (simp add: Send_passes_request Send_checks_def)
qed

theorem Send_type_checks_witness:
  "Send example_root (World_status 200) example_Client
       (example_message\<lparr>Type := ''unicode''\<rparr>) =
     ([], example_message\<lparr>Type := ''unicode''\<rparr>,
      Return (None, Some (New ''Invalid message text'')))
   \<and> Send example_root (World_status 200) example_Client
       (example_message\<lparr>Type := ''binary'', Body := ''payload''\<rparr>) =
     ([], example_message\<lparr>Type := ''binary'', Body := ''payload''\<rparr>,
      Return (None, Some (New ''Invalid binary message'')))
   \<and> Send example_root (World_status 200) example_Client
       (example_message\<lparr>Type := ''wappush'', URL := ''http://example.com''\<rparr>) =
     ([], example_message\<lparr>Type := ''wappush'', URL := ''http://example.com''\<rparr>,
      Return (None, Some (New ''Invalid WAP Push parameters'')))
   \<and> Send_checks example_message = None
   \<and> (\<exists>form. fst (Send example_root (World_status 200) example_Client example_message) =
         [sms_request example_root form])"
  using
    Send_type_checks [where msg = "example_message\<lparr>Type := ''unicode''\<rparr>"
      and apiRoot = example_root and w = "World_status 200" and c = example_Client]
    Send_type_checks [where msg = "example_message\<lparr>Type := ''binary'', Body := ''payload''\<rparr>"
      and apiRoot = example_root and w = "World_status 200" and c = example_Client]
    Send_type_checks [where
      msg = "example_message\<lparr>Type := ''wappush'', URL := ''http://example.com''\<rparr>"
      and apiRoot = example_root and w = "World_status 200" and c = example_Client]
    Send_type_checks [where msg = example_message
      and apiRoot = example_root and w = "World_status 200" and c = example_Client]
  by (simp add: example_message_def World_status_def Unicode_def Binary_def WAPPush_def
        Text_type_def)

text \<open>
  C10: for every message whose type is vcal, vcard or any string other than text,
  unicode, binary and wappush, \<^verbatim>\<open>Send\<close> makes no check by type: with a non-empty
  sender, a non-empty recipient and a client reference of at most 40 characters the
  checks pass, whatever the other fields hold, no validation error is returned, and the
  request is handed to \<^verbatim>\<open>client.Do\<close>.
\<close>

theorem Send_unchecked_types:
  assumes "From msg \<noteq> []" and "To msg \<noteq> []" and "length (ClientReference msg) \<le> 40"
    and "Type msg = VCal_type \<or> Type msg = VCard_type
         \<or> Type msg \<notin> {Text_type, Unicode, Binary, WAPPush}"
  shows
    "Send_checks msg = None
     \<and> (\<forall>x s. snd (snd (Send apiRoot w c msg)) \<noteq> Return (x, Some (New s)))
     \<and> (url_Parse_ok w (apiRoot @ ''/sms/json'') \<longrightarrow>
          (\<exists>form. fst (Send apiRoot w c msg) = [sms_request apiRoot form]))"
proof -
  from assms(4) have other: "Type msg \<notin> {Text_type, Unicode, Binary, WAPPush}"
    by (auto simp add: VCal_type_def VCard_type_def Text_type_def Unicode_def Binary_def
          WAPPush_def)
  with assms(1-3) have passes: "Send_checks msg = None"
    by (simp add: Send_checks_def)
  have "snd (snd (Send apiRoot w c msg)) \<noteq> Return (x, Some (New s))" for x s
    by (rule Send_passes_no_New [OF passes])
  moreover have "\<exists>form. fst (Send apiRoot w c msg) = [sms_request apiRoot form]"
    if "url_Parse_ok w (apiRoot @ ''/sms/json'')"
    using passes that by (rule Send_passes_request)
  ultimately show ?thesis using passes by blast
qed

theorem Send_unchecked_types_witness:
  "Send_checks (example_message\<lparr>Type := ''vcal''\<rparr>) = None
   \<and> (\<exists>form. fst (Send example_root (World_status 200) example_Client
                  (example_message\<lparr>Type := ''vcal''\<rparr>)) = [sms_request example_root form])
   \<and> Send_checks (example_message\<lparr>Type := ''vcard'', Title := ''t''\<rparr>) = None
   \<and> Send_checks (example_message\<lparr>Type := ''Binary''\<rparr>) = None"
  using
    Send_unchecked_types [where msg = "example_message\<lparr>Type := ''vcal''\<rparr>"
      and apiRoot = example_root and w = "World_status 200" and c = example_Client]
    Send_unchecked_types [where msg = "example_message\<lparr>Type := ''vcard'', Title := ''t''\<rparr>"
      and apiRoot = example_root and w = "World_status 200" and c = example_Client]
    Send_unchecked_types [where msg = "example_message\<lparr>Type := ''Binary''\<rparr>"
      and apiRoot = example_root and w = "World_status 200" and c = example_Client]
  by (simp add: example_message_def World_status_def VCal_type_def VCard_type_def
        Text_type_def Unicode_def Binary_def WAPPush_def)

section \<open>Decoding the message response\<close>

lemma ParseInt64_3: "ParseInt64 ''3'' = Some 3"
  by (simp add: ParseInt64_def is_digit_def)

lemma store_message_count:
  "store_MessageResponse (''message-count'', JString ''3'') r = Inr (r\<lparr>MessageCount := 3\<rparr>)"
  by (simp add: find_field_def MessageResponse_names_def put_quoted_int_def ParseInt64_3)

lemma store_message_count_bare:
  "store_MessageResponse (''message-count'', JNumber n) r = Inl UnmarshalError"
  by (simp add: find_field_def MessageResponse_names_def put_quoted_int_def)

lemma store_messages:
  "decode_reports js = Inr rs \<Longrightarrow>
     store_MessageResponse (''messages'', JArray js) r = Inr (r\<lparr>Messages := rs\<rparr>)"
  by (simp add: find_field_def MessageResponse_names_def)

lemma store_status_bare:
  "store_MessageReport (''status'', JNumber n) r = Inl UnmarshalError"
  by (simp add: find_field_def MessageReport_names_def put_quoted_int_def)

lemma store_status_quoted:
  "ParseInt64 s = Some n \<Longrightarrow>
     store_MessageReport (''status'', JString s) r = Inr (r\<lparr>Status := n\<rparr>)"
  by (auto simp add: find_field_def MessageReport_names_def put_quoted_int_def ParseInt64_def
        is_digit_def)

text \<open>
  C9: a message response body whose \<^verbatim>\<open>message-count\<close> is the quoted string \<^verbatim>\<open>"3"\<close> and
  whose \<^verbatim>\<open>messages\<close> array holds three report objects decodes to a
  \<^verbatim>\<open>MessageResponse\<close> with the count 3 and the three reports in the order of the array.
  The numeric fields \<^verbatim>\<open>message-count\<close> and \<^verbatim>\<open>status\<close> are read from quoted strings: the
  same fields as bare JSON numbers are an error.
\<close>

theorem decode_three_reports:
  assumes "decode_MessageReport (JObject o1) = Inr r1"
    and "decode_MessageReport (JObject o2) = Inr r2"
    and "decode_MessageReport (JObject o3) = Inr r3"
  shows
    "decode_MessageResponse
       (JObject [(''message-count'', JString ''3''),
                 (''messages'', JArray [JObject o1, JObject o2, JObject o3])])
       = Inr (Some \<lparr>MessageCount = 3, Messages = [r1, r2, r3]\<rparr>)
     \<and> (json_parse w body =
          Some (JObject [(''message-count'', JString ''3''),
                         (''messages'', JArray [JObject o1, JObject o2, JObject o3])])
        \<longrightarrow> Unmarshal_MessageResponse w body =
              Inr (Some \<lparr>MessageCount = 3, Messages = [r1, r2, r3]\<rparr>))
     \<and> decode_MessageResponse
         (JObject [(''message-count'', JNumber ''3''),
                   (''messages'', JArray [JObject o1, JObject o2, JObject o3])])
         = Inl UnmarshalError
     \<and> (ParseInt64 s = Some n \<longrightarrow>
          decode_MessageReport (JObject [(''status'', JString s)]) =
            Inr (zero_MessageReport\<lparr>Status := n\<rparr>))
     \<and> decode_MessageReport (JObject ((''status'', JNumber s) # kvs)) = Inl UnmarshalError"
proof -
  have reports: "decode_reports [JObject o1, JObject o2, JObject o3] = Inr [r1, r2, r3]"
    using assms by simp
  have decoded: "decode_MessageResponse
       (JObject [(''message-count'', JString ''3''),
                 (''messages'', JArray [JObject o1, JObject o2, JObject o3])])
       = Inr (Some \<lparr>MessageCount = 3, Messages = [r1, r2, r3]\<rparr>)"
    using reports
    by (simp add: store_message_count store_messages zero_MessageResponse_def
          del: store_MessageResponse.simps decode_MessageReport.simps)
  have unmarshalled: "Unmarshal_MessageResponse w body =
        Inr (Some \<lparr>MessageCount = 3, Messages = [r1, r2, r3]\<rparr>)"
    if "json_parse w body =
          Some (JObject [(''message-count'', JString ''3''),
                         (''messages'', JArray [JObject o1, JObject o2, JObject o3])])"
    using that decoded by (simp add: Unmarshal_MessageResponse_def)
  have bare_count: "decode_MessageResponse
         (JObject [(''message-count'', JNumber ''3''),
                   (''messages'', JArray [JObject o1, JObject o2, JObject o3])])
         = Inl UnmarshalError"
    by (simp add: store_message_count_bare del: store_MessageResponse.simps)
  have quoted_status: "decode_MessageReport (JObject [(''status'', JString s)]) =
            Inr (zero_MessageReport\<lparr>Status := n\<rparr>)"
    if "ParseInt64 s = Some n"
    using that by (simp add: store_status_quoted del: store_MessageReport.simps)
  have bare_status:
    "decode_MessageReport (JObject ((''status'', JNumber s) # kvs)) = Inl UnmarshalError"
    by (simp add: store_status_bare del: store_MessageReport.simps)
  from decoded unmarshalled bare_count quoted_status bare_status show ?thesis
    by (intro conjI impI)
qed

theorem decode_three_reports_witness:
  "decode_MessageResponse
     (JObject [(''message-count'', JString ''3''),
               (''messages'', JArray [JObject example_report_1, JObject example_report_2,
                                     JObject example_report_3])])
     = Inr (Some \<lparr>MessageCount = 3, Messages =
         [zero_MessageReport\<lparr>Status := 0, MessageID := ''0A0000000123ABCD1'',
            report_To := ''447700900000'', RemainingBalance := ''3.14159265'',
            MessagePrice := ''0.03330000'', Network := ''23410''\<rparr>,
          zero_MessageReport\<lparr>Status := 4, report_To := ''447700900000'',
            ErrorText := ''Bad Credentials''\<rparr>,
          zero_MessageReport\<lparr>Status := 9, report_ClientReference := ''ref-3''\<rparr>]\<rparr>)
   \<and> decode_MessageReport (JObject [(''status'', JString ''17'')]) =
       Inr (zero_MessageReport\<lparr>Status := 17\<rparr>)"
proof -
  have r1: "decode_MessageReport (JObject example_report_1) =
      Inr (zero_MessageReport\<lparr>Status := 0, MessageID := ''0A0000000123ABCD1'',
            report_To := ''447700900000'', RemainingBalance := ''3.14159265'',
            MessagePrice := ''0.03330000'', Network := ''23410''\<rparr>)"
    by (simp add: example_report_1_def find_field_def MessageReport_names_def
          put_quoted_int_def put_string_def ParseInt64_def is_digit_def zero_MessageReport_def)
  have r2: "decode_MessageReport (JObject example_report_2) =
      Inr (zero_MessageReport\<lparr>Status := 4, report_To := ''447700900000'',
            ErrorText := ''Bad Credentials''\<rparr>)"
    by (simp add: example_report_2_def find_field_def MessageReport_names_def
          put_quoted_int_def put_string_def ParseInt64_def is_digit_def zero_MessageReport_def)
  have r3: "decode_MessageReport (JObject example_report_3) =
      Inr (zero_MessageReport\<lparr>Status := 9, report_ClientReference := ''ref-3''\<rparr>)"
    by (simp add: example_report_3_def find_field_def MessageReport_names_def
          put_quoted_int_def put_string_def ParseInt64_def is_digit_def zero_MessageReport_def)
  have p: "ParseInt64 ''17'' = Some 17"
    by (simp add: ParseInt64_def is_digit_def)
  from decode_three_reports [OF r1 r2 r3, where s = "''17''" and n = 17] p
  show ?thesis by simp
qed

end
